theory Spec2Isabelle
  imports Complex_Main
begin

section \<open>Python values and exceptions\<close>

text \<open>
  The sensor keeps everything it knows in one dictionary, \<^verbatim>\<open>self._internal_attr\<close>, whose
  values are ordinary Python objects: \<^verbatim>\<open>None\<close>, booleans, integers, floats, strings,
  lists, and the dictionaries decoded from JSON. \<open>pyval\<close> is that universe. Floats are
  modelled as real numbers, strings as lists of (ASCII) characters, and a dictionary as
  an association list whose keys are taken to be pairwise different.

  An exception that leaves a method is a value \<open>Inl e\<close>. \<open>Unmodelled\<close> marks the few
  Python behaviours the model refuses to guess (parsing \<^verbatim>\<open>"nan"\<close> as a float, ordering
  two strings): no theorem below draws a conclusion from it.
\<close>

datatype error =
  TypeError | AttributeError | IndexError | ValueError | UnboundLocalError | Unmodelled

datatype pyval =
  PNone
  | PBool bool
  | PInt int
  | PFloat real
  | PStr string
  | PList "pyval list"
  | PDict "(string \<times> pyval) list"

definition ebind :: "error + 'a \<Rightarrow> ('a \<Rightarrow> error + 'b) \<Rightarrow> error + 'b" where
  "ebind m f = (case m of Inl e \<Rightarrow> Inl e | Inr x \<Rightarrow> f x)"

text \<open>Truth value of an object, as \<^verbatim>\<open>if x:\<close> reads it.\<close>

fun truthy :: "pyval \<Rightarrow> bool" where
  "truthy PNone = False"
| "truthy (PBool b) = b"
| "truthy (PInt n) = (n \<noteq> 0)"
| "truthy (PFloat r) = (r \<noteq> 0)"
| "truthy (PStr s) = (s \<noteq> [])"
| "truthy (PList l) = (l \<noteq> [])"
| "truthy (PDict d) = (d \<noteq> [])"

text \<open>The number an object stands for in arithmetic and comparisons, if it is one.\<close>

fun py_num :: "pyval \<Rightarrow> real option" where
  "py_num (PBool b) = Some (if b then 1 else 0)"
| "py_num (PInt n) = Some (of_int n)"
| "py_num (PFloat r) = Some r"
| "py_num _ = None"

text \<open>\<^verbatim>\<open>a == b\<close>: numbers compare by value (\<^verbatim>\<open>False == 0\<close>, \<^verbatim>\<open>0.0 == 0\<close>), everything
  else structurally.\<close>

definition py_eq :: "pyval \<Rightarrow> pyval \<Rightarrow> bool" where
  "py_eq a b =
     (case py_num a of
        Some x \<Rightarrow> (case py_num b of Some y \<Rightarrow> x = y | None \<Rightarrow> False)
      | None \<Rightarrow> a = b)"

text \<open>\<^verbatim>\<open>a > b\<close> and \<^verbatim>\<open>a < b\<close> on numbers; \<^verbatim>\<open>None\<close> on either side raises TypeError.\<close>

definition py_gt :: "pyval \<Rightarrow> pyval \<Rightarrow> error + bool" where
  "py_gt a b =
     (case py_num a of
        Some x \<Rightarrow> (case py_num b of Some y \<Rightarrow> Inr (y < x)
                    | None \<Rightarrow> (if b = PNone then Inl TypeError else Inl Unmodelled))
      | None \<Rightarrow> (if a = PNone then Inl TypeError else Inl Unmodelled))"

definition py_lt :: "pyval \<Rightarrow> pyval \<Rightarrow> error + bool" where
  "py_lt a b = py_gt b a"

text \<open>\<^verbatim>\<open>a + 1\<close>.\<close>

fun py_add1 :: "pyval \<Rightarrow> error + pyval" where
  "py_add1 (PInt n) = Inr (PInt (n + 1))"
| "py_add1 (PBool b) = Inr (PInt ((if b then 1 else 0) + 1))"
| "py_add1 (PFloat r) = Inr (PFloat (r + 1))"
| "py_add1 _ = Inl TypeError"

section \<open>Strings\<close>

definition ascii_upper :: string where
  "ascii_upper = ''ABCDEFGHIJKLMNOPQRSTUVWXYZ''"

definition ascii_lower :: string where
  "ascii_lower = ''abcdefghijklmnopqrstuvwxyz''"

definition lower_char :: "char \<Rightarrow> char" where
  "lower_char c = (case map_of (zip ascii_upper ascii_lower) c of Some d \<Rightarrow> d | None \<Rightarrow> c)"

definition upper_char :: "char \<Rightarrow> char" where
  "upper_char c = (case map_of (zip ascii_lower ascii_upper) c of Some d \<Rightarrow> d | None \<Rightarrow> c)"

definition is_alpha :: "char \<Rightarrow> bool" where
  "is_alpha c = (c \<in> set ascii_upper \<or> c \<in> set ascii_lower)"

definition str_lower :: "string \<Rightarrow> string" where
  "str_lower s = map lower_char s"

definition str_upper :: "string \<Rightarrow> string" where
  "str_upper s = map upper_char s"

text \<open>\<^verbatim>\<open>s.title()\<close>: a letter that follows a letter is lowered, any other letter raised.\<close>

fun title_from :: "bool \<Rightarrow> string \<Rightarrow> string" where
  "title_from prev [] = []"
| "title_from prev (c # cs) =
     (if is_alpha c
      then (if prev then lower_char c else upper_char c) # title_from True cs
      else c # title_from False cs)"

definition str_title :: "string \<Rightarrow> string" where
  "str_title s = title_from False s"

definition is_space :: "char \<Rightarrow> bool" where
  "is_space c =
     (c \<in> set [CHR 0x09, CHR 0x0A, CHR 0x0B, CHR 0x0C, CHR 0x0D,
               CHR 0x1C, CHR 0x1D, CHR 0x1E, CHR 0x1F, CHR 0x20])"

definition str_strip :: "string \<Rightarrow> string" where
  "str_strip s = rev (dropWhile is_space (rev (dropWhile is_space s)))"

definition str_startswith :: "string \<Rightarrow> string \<Rightarrow> bool" where
  "str_startswith s p = (take (length p) s = p)"

text \<open>\<^verbatim>\<open>s.find(p)\<close>: the first index where \<open>p\<close> starts, or \<open>-1\<close>.\<close>

fun find_from :: "nat \<Rightarrow> string \<Rightarrow> string \<Rightarrow> int" where
  "find_from i p [] = (if p = [] then int i else - 1)"
| "find_from i p (c # cs) =
     (if take (length p) (c # cs) = p then int i else find_from (Suc i) p cs)"

definition str_find :: "string \<Rightarrow> string \<Rightarrow> int" where
  "str_find s p = find_from 0 p s"

text \<open>\<^verbatim>\<open>p in s\<close> for two strings.\<close>

definition str_contains :: "string \<Rightarrow> string \<Rightarrow> bool" where
  "str_contains s p = (str_find s p \<noteq> - 1)"

text \<open>\<^verbatim>\<open>s.replace(old, new)\<close> for a non-empty \<open>old\<close> (the source only passes literals):
  occurrences are replaced from the left and do not overlap. The counter skips the rest
  of an occurrence that has just been replaced.\<close>

fun replace_from :: "nat \<Rightarrow> string \<Rightarrow> string \<Rightarrow> string \<Rightarrow> string" where
  "replace_from k old new [] = []"
| "replace_from (Suc k) old new (c # cs) = replace_from k old new cs"
| "replace_from 0 old new (c # cs) =
     (if old \<noteq> [] \<and> take (length old) (c # cs) = old
      then new @ replace_from (length old - 1) old new cs
      else c # replace_from 0 old new cs)"

definition str_replace :: "string \<Rightarrow> string \<Rightarrow> string \<Rightarrow> string" where
  "str_replace s old new = replace_from 0 old new s"

text \<open>\<^verbatim>\<open>s.split(sep)\<close> for a one-character separator: always at least one piece.\<close>

fun split_char :: "char \<Rightarrow> string \<Rightarrow> string list" where
  "split_char sep [] = [[]]"
| "split_char sep (c # cs) =
     (if c = sep then [] # split_char sep cs
      else (case split_char sep cs of w # ws \<Rightarrow> (c # w) # ws | [] \<Rightarrow> [[c]]))"

fun join_str :: "string \<Rightarrow> string list \<Rightarrow> string" where
  "join_str sep [] = []"
| "join_str sep [x] = x"
| "join_str sep (x # y # ys) = x @ sep @ join_str sep (y # ys)"

subsection \<open>Numbers and text\<close>

definition digits :: string where
  "digits = ''0123456789''"

definition is_digit :: "char \<Rightarrow> bool" where
  "is_digit c = (c \<in> set digits)"

definition digit_val :: "char \<Rightarrow> nat" where
  "digit_val c = (case map_of (zip digits [0 ..< 10]) c of Some d \<Rightarrow> d | None \<Rightarrow> 0)"

definition nat_of_digits :: "string \<Rightarrow> nat" where
  "nat_of_digits s = foldl (\<lambda>acc c. 10 * acc + digit_val c) 0 s"

fun str_nat :: "nat \<Rightarrow> string" where
  "str_nat n = (if n < 10 then [digits ! n] else str_nat (n div 10) @ [digits ! (n mod 10)])"

declare str_nat.simps [simp del]

definition str_int :: "int \<Rightarrow> string" where
  "str_int i = (if i < 0 then CHR ''-'' # str_nat (nat (- i)) else str_nat (nat i))"

text \<open>\<^verbatim>\<open>"%02d" % n\<close> for a non-negative \<open>n\<close>.\<close>

definition fmt02 :: "nat \<Rightarrow> string" where
  "fmt02 n = (if n < 10 then CHR ''0'' # str_nat n else str_nat n)"

text \<open>
  \<^verbatim>\<open>float(s)\<close> for a string: surrounding blanks, a sign, digits with an optional
  fraction, an optional exponent. Anything else is a ValueError, except the spellings of
  infinity and not-a-number and digit groups with underscores, which Python accepts and
  the reals cannot express: those are \<open>Unmodelled\<close>.
\<close>

definition split_sign :: "string \<Rightarrow> bool \<times> string" where
  "split_sign s =
     (case s of
        c # cs \<Rightarrow> (if c = CHR ''-'' then (True, cs) else if c = CHR ''+'' then (False, cs)
                    else (False, s))
      | [] \<Rightarrow> (False, s))"

definition is_exp_char :: "char \<Rightarrow> bool" where
  "is_exp_char c = (c = CHR ''e'' \<or> c = CHR ''E'')"

definition parse_mantissa :: "string \<Rightarrow> real option" where
  "parse_mantissa m =
     (let ip = takeWhile (\<lambda>c. c \<noteq> CHR ''.'') m;
          fp = drop 1 (dropWhile (\<lambda>c. c \<noteq> CHR ''.'') m)
      in if list_all is_digit ip \<and> list_all is_digit fp \<and> ip @ fp \<noteq> []
         then Some (real (nat_of_digits (ip @ fp)) / 10 ^ length fp)
         else None)"

definition parse_exponent :: "string \<Rightarrow> int option" where
  "parse_exponent x =
     (case x of
        [] \<Rightarrow> Some 0
      | _ # ds \<Rightarrow>
          (let (neg, body) = split_sign ds
           in if body \<noteq> [] \<and> list_all is_digit body
              then Some (if neg then - int (nat_of_digits body) else int (nat_of_digits body))
              else None))"

definition float_of_string :: "string \<Rightarrow> error + real" where
  "float_of_string s =
     (let (neg, body) = split_sign (str_strip s)
      in if str_lower body \<in> set [''inf'', ''infinity'', ''nan''] \<or> CHR ''_'' \<in> set body
         then Inl Unmodelled
         else
           (case parse_mantissa (takeWhile (\<lambda>c. \<not> is_exp_char c) body) of
              None \<Rightarrow> Inl ValueError
            | Some m \<Rightarrow>
                (case parse_exponent (dropWhile (\<lambda>c. \<not> is_exp_char c) body) of
                   None \<Rightarrow> Inl ValueError
                 | Some e \<Rightarrow>
                     Inr ((if neg then - m else m) *
                          (if 0 \<le> e then 10 ^ nat e else 1 / 10 ^ nat (- e))))))"

text \<open>\<^verbatim>\<open>float(v)\<close>.\<close>

fun py_float :: "pyval \<Rightarrow> error + real" where
  "py_float (PFloat r) = Inr r"
| "py_float (PInt n) = Inr (of_int n)"
| "py_float (PBool b) = Inr (if b then 1 else 0)"
| "py_float (PStr s) = float_of_string s"
| "py_float _ = Inl TypeError"

text \<open>\<^verbatim>\<open>int(v)\<close>: a float is truncated towards zero; a string must be a signed run of
  digits.\<close>

definition trunc :: "real \<Rightarrow> int" where
  "trunc r = (if 0 \<le> r then \<lfloor>r\<rfloor> else \<lceil>r\<rceil>)"

definition int_of_string :: "string \<Rightarrow> error + int" where
  "int_of_string s =
     (let (neg, body) = split_sign (str_strip s)
      in if CHR ''_'' \<in> set body then Inl Unmodelled
         else if body \<noteq> [] \<and> list_all is_digit body
         then Inr (if neg then - int (nat_of_digits body) else int (nat_of_digits body))
         else Inl ValueError)"

fun py_int :: "pyval \<Rightarrow> error + int" where
  "py_int (PInt n) = Inr n"
| "py_int (PBool b) = Inr (if b then 1 else 0)"
| "py_int (PFloat r) = Inr (trunc r)"
| "py_int (PStr s) = int_of_string s"
| "py_int _ = Inl TypeError"

text \<open>\<^verbatim>\<open>round(v, 1)\<close> and \<^verbatim>\<open>round(v, 3)\<close> need a number; the rounded digits are never
  inspected by the code, so only the rounding to a multiple of \<open>10 ^ - k\<close> is kept.\<close>

definition py_round :: "pyval \<Rightarrow> nat \<Rightarrow> error + real" where
  "py_round v k =
     (case py_num v of
        Some r \<Rightarrow> Inr (of_int (round (r * 10 ^ k)) / 10 ^ k)
      | None \<Rightarrow> Inl TypeError)"

text \<open>
  \<^verbatim>\<open>str(v)\<close>. The digits Python prints for a float, and the text it prints for a list
  or a dictionary, are not modelled: \<open>repr\<close> stands for them.
\<close>

fun py_str :: "(pyval \<Rightarrow> string) \<Rightarrow> pyval \<Rightarrow> string" where
  "py_str repr PNone = ''None''"
| "py_str repr (PBool b) = (if b then ''True'' else ''False'')"
| "py_str repr (PInt n) = str_int n"
| "py_str repr (PStr s) = s"
| "py_str repr v = repr v"

text \<open>Methods of a string called on an arbitrary object: anything but a string has no
  such method.\<close>

fun as_str :: "pyval \<Rightarrow> error + string" where
  "as_str (PStr s) = Inr s"
| "as_str _ = Inl AttributeError"

text \<open>\<^verbatim>\<open>d.get(k)\<close>: only a dictionary has \<^verbatim>\<open>get\<close>; a key that is not there gives
  \<^verbatim>\<open>None\<close>.\<close>

fun py_get :: "pyval \<Rightarrow> pyval \<Rightarrow> error + pyval" where
  "py_get (PDict d) (PStr k) = Inr (case map_of d k of Some v \<Rightarrow> v | None \<Rightarrow> PNone)"
| "py_get (PDict d) (PList k) = Inl TypeError"
| "py_get (PDict d) (PDict k) = Inl TypeError"
| "py_get (PDict d) k = Inr PNone"
| "py_get c k = Inl AttributeError"

text \<open>\<^verbatim>\<open>x in c\<close>: keys of a dictionary, elements of a list, substrings of a string.
  \<^verbatim>\<open>None\<close> and numbers are not containers.\<close>

fun py_in :: "pyval \<Rightarrow> pyval \<Rightarrow> error + bool" where
  "py_in (PStr k) (PDict d) = Inr (k \<in> fst ` set d)"
| "py_in (PList k) (PDict d) = Inl TypeError"
| "py_in (PDict k) (PDict d) = Inl TypeError"
| "py_in x (PDict d) = Inr False"
| "py_in x (PList l) = Inr (list_ex (py_eq x) l)"
| "py_in (PStr p) (PStr s) = Inr (str_contains s p)"
| "py_in x c = Inl TypeError"

text \<open>\<^verbatim>\<open>v[:n]\<close> for a string or a list.\<close>

fun py_take :: "nat \<Rightarrow> pyval \<Rightarrow> error + pyval" where
  "py_take n (PStr s) = Inr (PStr (take n s))"
| "py_take n (PList l) = Inr (PList (take n l))"
| "py_take n v = Inl TypeError"

text \<open>\<^verbatim>\<open>", ".join(items)\<close>: every item must be a string.\<close>

definition py_join :: "string \<Rightarrow> pyval list \<Rightarrow> error + string" where
  "py_join sep items =
     (if list_all (\<lambda>v. case v of PStr _ \<Rightarrow> True | _ \<Rightarrow> False) items
      then Inr (join_str sep (map (\<lambda>v. case v of PStr s \<Rightarrow> s | _ \<Rightarrow> []) items))
      else Inl TypeError)"

section \<open>The attribute store\<close>

text \<open>
  The keys of \<^verbatim>\<open>self._internal_attr\<close> are the constants the module imports from
  \<^verbatim>\<open>.const\<close> and \<^verbatim>\<open>homeassistant.const\<close>. Modelled from the spec: \<^verbatim>\<open>const.py\<close> is not
  among the sources, so the spelling of a key is unknown; each constant is a key of its
  own, numbered in alphabetical order, one for each attribute of the spec's data model.
  The one exception is \<^verbatim>\<open>ATTR_OPTIONS\<close>: the constructor stores the configured display
  options under \<^verbatim>\<open>CONF_OPTIONS\<close>, and \<^verbatim>\<open>do_update\<close> tests \<^verbatim>\<open>CONF_OPTIONS\<close> and then
  reads \<^verbatim>\<open>ATTR_OPTIONS\<close>, so both names denote one key.
\<close>

datatype attr = Attr nat

named_theorems attr_names

definition ATTR_CITY :: attr where [attr_names]:
  "ATTR_CITY = Attr 0"

definition ATTR_COUNTRY :: attr where [attr_names]:
  "ATTR_COUNTRY = Attr 1"

definition ATTR_COUNTY :: attr where [attr_names]:
  "ATTR_COUNTY = Attr 2"

definition ATTR_DEVICETRACKER_ID :: attr where [attr_names]:
  "ATTR_DEVICETRACKER_ID = Attr 3"

definition ATTR_DEVICETRACKER_ZONE :: attr where [attr_names]:
  "ATTR_DEVICETRACKER_ZONE = Attr 4"

definition ATTR_DEVICETRACKER_ZONE_NAME :: attr where [attr_names]:
  "ATTR_DEVICETRACKER_ZONE_NAME = Attr 5"

definition ATTR_DIRECTION_OF_TRAVEL :: attr where [attr_names]:
  "ATTR_DIRECTION_OF_TRAVEL = Attr 6"

definition ATTR_DISPLAY_OPTIONS :: attr where [attr_names]:
  "ATTR_DISPLAY_OPTIONS = Attr 7"

definition ATTR_DISTANCE_FROM_HOME_KM :: attr where [attr_names]:
  "ATTR_DISTANCE_FROM_HOME_KM = Attr 8"

definition ATTR_DISTANCE_FROM_HOME_M :: attr where [attr_names]:
  "ATTR_DISTANCE_FROM_HOME_M = Attr 9"

definition ATTR_DISTANCE_FROM_HOME_MI :: attr where [attr_names]:
  "ATTR_DISTANCE_FROM_HOME_MI = Attr 10"

definition ATTR_DISTANCE_TRAVELED_M :: attr where [attr_names]:
  "ATTR_DISTANCE_TRAVELED_M = Attr 11"

definition ATTR_DISTANCE_TRAVELED_MI :: attr where [attr_names]:
  "ATTR_DISTANCE_TRAVELED_MI = Attr 12"

definition ATTR_FORMATTED_ADDRESS :: attr where [attr_names]:
  "ATTR_FORMATTED_ADDRESS = Attr 13"

definition ATTR_FORMATTED_PLACE :: attr where [attr_names]:
  "ATTR_FORMATTED_PLACE = Attr 14"

definition ATTR_GPS_ACCURACY :: attr where [attr_names]:
  "ATTR_GPS_ACCURACY = Attr 15"

definition ATTR_HOME_LATITUDE :: attr where [attr_names]:
  "ATTR_HOME_LATITUDE = Attr 16"

definition ATTR_HOME_LOCATION :: attr where [attr_names]:
  "ATTR_HOME_LOCATION = Attr 17"

definition ATTR_HOME_LONGITUDE :: attr where [attr_names]:
  "ATTR_HOME_LONGITUDE = Attr 18"

definition ATTR_INITIAL_UPDATE :: attr where [attr_names]:
  "ATTR_INITIAL_UPDATE = Attr 19"

definition ATTR_IS_DRIVING :: attr where [attr_names]:
  "ATTR_IS_DRIVING = Attr 20"

definition ATTR_JSON_FILENAME :: attr where [attr_names]:
  "ATTR_JSON_FILENAME = Attr 21"

definition ATTR_LAST_CHANGED :: attr where [attr_names]:
  "ATTR_LAST_CHANGED = Attr 22"

definition ATTR_LAST_PLACE_NAME :: attr where [attr_names]:
  "ATTR_LAST_PLACE_NAME = Attr 23"

definition ATTR_LAST_UPDATED :: attr where [attr_names]:
  "ATTR_LAST_UPDATED = Attr 24"

definition ATTR_LATITUDE :: attr where [attr_names]:
  "ATTR_LATITUDE = Attr 25"

definition ATTR_LATITUDE_OLD :: attr where [attr_names]:
  "ATTR_LATITUDE_OLD = Attr 26"

definition ATTR_LOCATION_CURRENT :: attr where [attr_names]:
  "ATTR_LOCATION_CURRENT = Attr 27"

definition ATTR_LOCATION_PREVIOUS :: attr where [attr_names]:
  "ATTR_LOCATION_PREVIOUS = Attr 28"

definition ATTR_LONGITUDE :: attr where [attr_names]:
  "ATTR_LONGITUDE = Attr 29"

definition ATTR_LONGITUDE_OLD :: attr where [attr_names]:
  "ATTR_LONGITUDE_OLD = Attr 30"

definition ATTR_MAP_LINK :: attr where [attr_names]:
  "ATTR_MAP_LINK = Attr 31"

definition ATTR_NATIVE_VALUE :: attr where [attr_names]:
  "ATTR_NATIVE_VALUE = Attr 32"

definition ATTR_OSM_DETAILS_DICT :: attr where [attr_names]:
  "ATTR_OSM_DETAILS_DICT = Attr 33"

definition ATTR_OSM_DICT :: attr where [attr_names]:
  "ATTR_OSM_DICT = Attr 34"

definition ATTR_OSM_ID :: attr where [attr_names]:
  "ATTR_OSM_ID = Attr 35"

definition ATTR_OSM_TYPE :: attr where [attr_names]:
  "ATTR_OSM_TYPE = Attr 36"

definition ATTR_PLACE_CATEGORY :: attr where [attr_names]:
  "ATTR_PLACE_CATEGORY = Attr 37"

definition ATTR_PLACE_NAME :: attr where [attr_names]:
  "ATTR_PLACE_NAME = Attr 38"

definition ATTR_PLACE_NEIGHBOURHOOD :: attr where [attr_names]:
  "ATTR_PLACE_NEIGHBOURHOOD = Attr 39"

definition ATTR_PLACE_TYPE :: attr where [attr_names]:
  "ATTR_PLACE_TYPE = Attr 40"

definition ATTR_POSTAL_CODE :: attr where [attr_names]:
  "ATTR_POSTAL_CODE = Attr 41"

definition ATTR_POSTAL_TOWN :: attr where [attr_names]:
  "ATTR_POSTAL_TOWN = Attr 42"

definition ATTR_PREVIOUS_STATE :: attr where [attr_names]:
  "ATTR_PREVIOUS_STATE = Attr 43"

definition ATTR_REGION :: attr where [attr_names]:
  "ATTR_REGION = Attr 44"

definition ATTR_STATE_ABBR :: attr where [attr_names]:
  "ATTR_STATE_ABBR = Attr 45"

definition ATTR_STREET :: attr where [attr_names]:
  "ATTR_STREET = Attr 46"

definition ATTR_STREET_NUMBER :: attr where [attr_names]:
  "ATTR_STREET_NUMBER = Attr 47"

definition ATTR_STREET_REF :: attr where [attr_names]:
  "ATTR_STREET_REF = Attr 48"

definition ATTR_UPDATES_SKIPPED :: attr where [attr_names]:
  "ATTR_UPDATES_SKIPPED = Attr 49"

definition ATTR_WIKIDATA_DICT :: attr where [attr_names]:
  "ATTR_WIKIDATA_DICT = Attr 50"

definition ATTR_WIKIDATA_ID :: attr where [attr_names]:
  "ATTR_WIKIDATA_ID = Attr 51"

definition CONF_API_KEY :: attr where [attr_names]:
  "CONF_API_KEY = Attr 52"

definition CONF_DEVICETRACKER_ID :: attr where [attr_names]:
  "CONF_DEVICETRACKER_ID = Attr 53"

definition CONF_EXTENDED_ATTR :: attr where [attr_names]:
  "CONF_EXTENDED_ATTR = Attr 54"

definition CONF_HOME_ZONE :: attr where [attr_names]:
  "CONF_HOME_ZONE = Attr 55"

definition CONF_ICON :: attr where [attr_names]:
  "CONF_ICON = Attr 56"

definition CONF_LANGUAGE :: attr where [attr_names]:
  "CONF_LANGUAGE = Attr 57"

definition CONF_MAP_PROVIDER :: attr where [attr_names]:
  "CONF_MAP_PROVIDER = Attr 58"

definition CONF_MAP_ZOOM :: attr where [attr_names]:
  "CONF_MAP_ZOOM = Attr 59"

definition CONF_NAME :: attr where [attr_names]:
  "CONF_NAME = Attr 60"

definition CONF_OPTIONS :: attr where [attr_names]:
  "CONF_OPTIONS = Attr 61"

definition CONF_SHOW_TIME :: attr where [attr_names]:
  "CONF_SHOW_TIME = Attr 62"

definition CONF_UNIQUE_ID :: attr where [attr_names]:
  "CONF_UNIQUE_ID = Attr 63"

abbreviation ATTR_OPTIONS :: attr where
  "ATTR_OPTIONS \<equiv> CONF_OPTIONS"

text \<open>
  The store is the dictionary itself, in insertion order: a list of pairs in which a key
  is looked up from the left. \<^verbatim>\<open>d.update({k: v})\<close> replaces the value of a key that
  is there and appends one that is not.
\<close>

type_synonym store = "(attr \<times> pyval) list"

definition dict_update :: "('k \<times> 'v) list \<Rightarrow> 'k \<Rightarrow> 'v \<Rightarrow> ('k \<times> 'v) list" where
  "dict_update d k v =
     (if k \<in> fst ` set d
      then map (\<lambda>kv. if fst kv = k then (k, v) else kv) d
      else d @ [(k, v)])"

text \<open>\<^verbatim>\<open>self._internal_attr.get(attr)\<close>.\<close>

definition raw_get :: "store \<Rightarrow> attr \<Rightarrow> pyval" where
  "raw_get s a = (case map_of s a of Some v \<Rightarrow> v | None \<Rightarrow> PNone)"

text \<open>\<^verbatim>\<open>is_attr_blank\<close>: blank is whatever is neither truthy nor equal to zero.\<close>

definition is_attr_blank :: "store \<Rightarrow> attr \<Rightarrow> bool" where
  "is_attr_blank s a =
     (if truthy (raw_get s a) \<or> py_eq (raw_get s a) (PInt 0) then False else True)"

text \<open>\<^verbatim>\<open>get_attr(attr)\<close> with the default \<^verbatim>\<open>default=None\<close>, which is how every call in
  the update path uses it.\<close>

definition get_attr :: "store \<Rightarrow> attr \<Rightarrow> pyval" where
  "get_attr s a = (if is_attr_blank s a then PNone else raw_get s a)"

definition set_attr :: "store \<Rightarrow> attr \<Rightarrow> pyval \<Rightarrow> store" where
  "set_attr s a v = dict_update s a v"

text \<open>\<^verbatim>\<open>self._internal_attr.pop(attr, None)\<close>.\<close>

definition clear_attr :: "store \<Rightarrow> attr \<Rightarrow> store" where
  "clear_attr s a = filter (\<lambda>kv. fst kv \<noteq> a) s"

text \<open>\<^verbatim>\<open>cleanup_attributes\<close>: the keys are visited in order, and a key whose value is
  blank is removed.\<close>

definition cleanup_attributes :: "store \<Rightarrow> store" where
  "cleanup_attributes s =
     fold (\<lambda>a s. if is_attr_blank s a then clear_attr s a else s) (map fst s) s"

section \<open>Geo-math and small predicates\<close>

definition radians :: "real \<Rightarrow> real" where
  "radians x = x * pi / 180"

text \<open>\<^verbatim>\<open>haversine(lon1, lat1, lon2, lat2)\<close>, in kilometres.\<close>

definition haversine :: "real \<Rightarrow> real \<Rightarrow> real \<Rightarrow> real \<Rightarrow> real" where
  "haversine lon1 lat1 lon2 lat2 =
     (let lon1 = radians lon1; lat1 = radians lat1; lon2 = radians lon2; lat2 = radians lat2;
          dlon = lon2 - lon1;
          dlat = lat2 - lat1;
          a = (sin (dlat / 2))\<^sup>2 + cos lat1 * cos lat2 * (sin (dlon / 2))\<^sup>2;
          c = 2 * arcsin (sqrt a);
          r = 6371
      in c * r)"

text \<open>\<^verbatim>\<open>is_float\<close>: only the ValueError of \<^verbatim>\<open>float\<close> is caught.\<close>

definition is_float :: "pyval \<Rightarrow> error + bool" where
  "is_float v =
     (if v \<noteq> PNone
      then (case py_float v of
              Inr _ \<Rightarrow> Inr True
            | Inl e \<Rightarrow> (if e = ValueError then Inr False else Inl e))
      else Inr False)"

definition in_zone :: "store \<Rightarrow> error + bool" where
  "in_zone s =
     (if \<not> is_attr_blank s ATTR_DEVICETRACKER_ZONE
      then ebind (as_str (get_attr s ATTR_DEVICETRACKER_ZONE)) (\<lambda>z.
             if str_contains (str_lower z) ''stationary''
                \<or> str_lower z = ''away''
                \<or> str_lower z = ''not_home''
                \<or> str_lower z = ''notset''
             then Inr False
             else Inr True)
      else Inr False)"

section \<open>The update gate\<close>

text \<open>
  \<^verbatim>\<open>determine_if_update_needed\<close> returns the decision and the store, which only the
  last branch changes. Log lines are left out throughout; they concatenate
  \<^verbatim>\<open>self.get_attr(CONF_NAME)\<close>, which the constructor has already done successfully for
  every sensor that exists. The one log argument that can fail on other data, the
  \<^verbatim>\<open>round(...)\<close> of the distance travelled, is kept.
\<close>

definition determine_if_update_needed :: "store \<Rightarrow> error + (bool \<times> store)" where
  "determine_if_update_needed s =
     (if \<not> is_attr_blank s ATTR_GPS_ACCURACY \<and> py_eq (get_attr s ATTR_GPS_ACCURACY) (PInt 0)
      then Inr (False, s)
      else if truthy (get_attr s ATTR_INITIAL_UPDATE)
      then Inr (True, s)
      else if py_eq (get_attr s ATTR_LOCATION_CURRENT) (get_attr s ATTR_LOCATION_PREVIOUS)
      then Inr (False, s)
      else
        ebind (py_int (get_attr s ATTR_DISTANCE_TRAVELED_M)) (\<lambda>d.
        ebind (if 0 < d then py_gt (get_attr s ATTR_UPDATES_SKIPPED) (PInt 3) else Inr False)
          (\<lambda>forced.
        if forced then Inr (True, s)
        else
          ebind (py_int (get_attr s ATTR_DISTANCE_TRAVELED_M)) (\<lambda>d'.
          if d' < 10
          then
            ebind (py_add1 (get_attr s ATTR_UPDATES_SKIPPED)) (\<lambda>n.
            let s' = set_attr s ATTR_UPDATES_SKIPPED n in
            ebind (py_round (get_attr s' ATTR_DISTANCE_TRAVELED_M) 1) (\<lambda>_.
            Inr (False, s')))
          else Inr (True, s)))))"

section \<open>The host and the outside world\<close>

text \<open>
  What a pass reads from outside the sensor is gathered in one record: the host's state
  registry (\<^verbatim>\<open>self._hass.states.get\<close>), the clock, the HTTP client and JSON decoder,
  the host's \<^verbatim>\<open>distance\<close> helper (metres between two points, or \<^verbatim>\<open>None\<close>), the text
  Python prints for floats and containers, and the attribute lists of \<^verbatim>\<open>const.py\<close>,
  which is not among the sources and is therefore a parameter.
\<close>

record ha_state =
  st_state :: string
  st_name :: string
  st_attributes :: "(string \<times> pyval) list"

record datetime =
  dt_text :: string
  dt_hour :: nat
  dt_minute :: nat

text \<open>The outcome of \<^verbatim>\<open>requests.get(url)\<close>: one of the exceptions the method catches, or
  a response with its truth value (\<^verbatim>\<open>response.ok\<close>) and its body.\<close>

datatype fetch =
  RaisesTimeout
  | RaisesOSError
  | RaisesNewConnectionError
  | RaisesException
  | Response bool string

record env =
  hass_states :: "string \<Rightarrow> ha_state option"
  datetime_now :: datetime
  requests_get :: "string \<Rightarrow> fetch"
  json_loads :: "string \<Rightarrow> pyval option"
  ha_distance :: "real \<Rightarrow> real \<Rightarrow> real \<Rightarrow> real \<Rightarrow> real option"
  py_repr :: "pyval \<Rightarrow> string"
  RESET_ATTRIBUTE_LIST :: "attr list"
  PLACE_NAME_DUPLICATE_LIST :: "attr list"
  EVENT_ATTRIBUTE_LIST :: "attr list"
  EXTENDED_ATTRIBUTE_LIST :: "attr list"

definition CONF_LATITUDE :: string where
  "CONF_LATITUDE = ''latitude''"

definition CONF_LONGITUDE :: string where
  "CONF_LONGITUDE = ''longitude''"

definition CONF_ZONE :: string where
  "CONF_ZONE = ''zone''"

definition ATTR_FRIENDLY_NAME :: string where
  "ATTR_FRIENDLY_NAME = ''friendly_name''"

text \<open>\<^verbatim>\<open>ATTR_GPS_ACCURACY\<close> as the host spells it in a state's attributes.\<close>

definition GPS_ACCURACY :: string where
  "GPS_ACCURACY = ''gps_accuracy''"

text \<open>\<^verbatim>\<open>self._hass.states.get(entity_id)\<close> for an entity id held in an attribute.\<close>

definition states_get :: "env \<Rightarrow> pyval \<Rightarrow> error + ha_state option" where
  "states_get e v = (case v of PStr i \<Rightarrow> Inr (hass_states e i) | _ \<Rightarrow> Inl AttributeError)"

text \<open>\<^verbatim>\<open>state.attributes.get(key)\<close>, where \<^verbatim>\<open>state\<close> may be \<^verbatim>\<open>None\<close>.\<close>

definition attributes_get :: "ha_state option \<Rightarrow> string \<Rightarrow> error + pyval" where
  "attributes_get st k =
     (case st of
        None \<Rightarrow> Inl AttributeError
      | Some t \<Rightarrow> Inr (case map_of (st_attributes t) k of Some v \<Rightarrow> v | None \<Rightarrow> PNone))"

text \<open>Short-circuit \<^verbatim>\<open>and\<close> and \<^verbatim>\<open>not\<close> over conditions that may raise.\<close>

definition eand :: "error + bool \<Rightarrow> error + bool \<Rightarrow> error + bool" where
  "eand a b = ebind a (\<lambda>x. if x then b else Inr False)"

definition enot :: "error + bool \<Rightarrow> error + bool" where
  "enot a = ebind a (\<lambda>x. Inr (\<not> x))"

fun emap :: "('a \<Rightarrow> error + 'b) \<Rightarrow> 'a list \<Rightarrow> error + 'b list" where
  "emap f [] = Inr []"
| "emap f (x # xs) = ebind (f x) (\<lambda>y. ebind (emap f xs) (\<lambda>ys. Inr (y # ys)))"

section \<open>Fetching a dictionary\<close>

definition get_dict_from_url :: "env \<Rightarrow> string \<Rightarrow> error + pyval" where
  "get_dict_from_url e url =
     (let finish = (\<lambda>get_dict.
            ebind (py_in (PStr ''error_message'') get_dict) (\<lambda>failed.
            if failed then Inr (PDict []) else Inr get_dict))
      in case requests_get e url of
           RaisesTimeout \<Rightarrow> Inr (PDict [])
         | RaisesOSError \<Rightarrow> Inr (PDict [])
         | RaisesNewConnectionError \<Rightarrow> Inr (PDict [])
         | RaisesException \<Rightarrow> Inr (PDict [])
         | Response ok body \<Rightarrow>
             (let get_json_input = (if ok then PStr body else PDict [])
              in if truthy get_json_input
                 then (case json_loads e body of
                         None \<Rightarrow> Inr (PDict [])
                       | Some get_dict \<Rightarrow> finish get_dict)
                 else finish (PDict [])))"

section \<open>Reading the tracked entity\<close>

definition check_for_updated_entity_name ::
  "env \<Rightarrow> string option \<Rightarrow> store \<Rightarrow> error + (store \<times> pyval option)" where
  "check_for_updated_entity_name e entity_id s =
     (case entity_id of
        None \<Rightarrow> Inr (s, None)
      | Some i \<Rightarrow>
          (case hass_states e i of
             None \<Rightarrow> Inr (s, None)
           | Some st \<Rightarrow>
               ebind (attributes_get (Some st) ATTR_FRIENDLY_NAME) (\<lambda>friendly.
               if friendly \<noteq> PNone \<and> \<not> py_eq (get_attr s CONF_NAME) friendly
               then (let s1 = set_attr s CONF_NAME friendly;
                         s2 = set_attr s1 CONF_NAME (get_attr s1 CONF_NAME)
                     in Inr (s2, Some (get_attr s1 CONF_NAME)))
               else Inr (s, None))))"

definition get_zone_details :: "env \<Rightarrow> store \<Rightarrow> error + store" where
  "get_zone_details e s =
     ebind (states_get e (get_attr s CONF_DEVICETRACKER_ID)) (\<lambda>tracker.
     case tracker of
       None \<Rightarrow> Inl AttributeError
     | Some t \<Rightarrow>
         (let s1 = set_attr s ATTR_DEVICETRACKER_ZONE (PStr (st_state t)) in
          ebind (attributes_get tracker CONF_ZONE) (\<lambda>devicetracker_zone_id.
          let devicetracker_zone_name_state =
                (if devicetracker_zone_id \<noteq> PNone
                 then hass_states e
                        (CONF_ZONE @ ''.'' @ py_str (py_repr e) devicetracker_zone_id)
                 else None);
              s2 = (case devicetracker_zone_name_state of
                      Some z \<Rightarrow> set_attr s1 ATTR_DEVICETRACKER_ZONE_NAME (PStr (st_name z))
                    | None \<Rightarrow> set_attr s1 ATTR_DEVICETRACKER_ZONE_NAME
                                (get_attr s1 ATTR_DEVICETRACKER_ZONE))
          in if \<not> is_attr_blank s2 ATTR_DEVICETRACKER_ZONE_NAME
             then ebind (as_str (get_attr s2 ATTR_DEVICETRACKER_ZONE_NAME)) (\<lambda>n.
                  if str_lower n = n
                  then Inr (set_attr s2 ATTR_DEVICETRACKER_ZONE_NAME (PStr (str_title n)))
                  else Inr s2)
             else Inr s2)))"

definition get_gps_accuracy :: "env \<Rightarrow> store \<Rightarrow> error + store" where
  "get_gps_accuracy e s =
     ebind (states_get e (get_attr s CONF_DEVICETRACKER_ID)) (\<lambda>tracker.
     case tracker of
       None \<Rightarrow> Inr s
     | Some t \<Rightarrow>
         ebind (attributes_get tracker GPS_ACCURACY) (\<lambda>acc.
         ebind (eand (Inr (acc \<noteq> PNone)) (is_float acc)) (\<lambda>usable.
         if usable
         then ebind (py_float acc) (\<lambda>r. Inr (set_attr s ATTR_GPS_ACCURACY (PFloat r)))
         else Inr s)))"

definition get_map_link :: "env \<Rightarrow> store \<Rightarrow> store" where
  "get_map_link e s =
     (let str = py_str (py_repr e) in
      if py_eq (get_attr s CONF_MAP_PROVIDER) (PStr ''google'')
      then set_attr s ATTR_MAP_LINK (PStr
             (''https://maps.google.com/?q='' @ str (get_attr s ATTR_LOCATION_CURRENT)
              @ ''&ll='' @ str (get_attr s ATTR_LOCATION_CURRENT)
              @ ''&z='' @ str (get_attr s CONF_MAP_ZOOM)))
      else if py_eq (get_attr s CONF_MAP_PROVIDER) (PStr ''osm'')
      then set_attr s ATTR_MAP_LINK (PStr
             (''https://www.openstreetmap.org/?mlat='' @ str (get_attr s ATTR_LATITUDE)
              @ ''&mlon='' @ str (get_attr s ATTR_LONGITUDE)
              @ ''#map='' @ str (get_attr s CONF_MAP_ZOOM)
              @ ''/'' @ take 8 (str (get_attr s ATTR_LATITUDE))
              @ ''/'' @ take 9 (str (get_attr s ATTR_LONGITUDE))))
      else set_attr s ATTR_MAP_LINK (PStr
             (''https://maps.apple.com/maps/?q='' @ str (get_attr s ATTR_LOCATION_CURRENT)
              @ ''&z='' @ str (get_attr s CONF_MAP_ZOOM))))"

definition get_driving_status :: "store \<Rightarrow> error + store" where
  "get_driving_status s =
     ebind (in_zone s) (\<lambda>zone.
     let isDriving =
           (if \<not> zone
            then (if \<not> py_eq (get_attr s ATTR_DIRECTION_OF_TRAVEL) (PStr ''stationary'')
                     \<and> (py_eq (get_attr s ATTR_PLACE_CATEGORY) (PStr ''highway'')
                          \<or> py_eq (get_attr s ATTR_PLACE_TYPE) (PStr ''motorway''))
                  then True else False)
            else False)
     in Inr (set_attr s ATTR_IS_DRIVING (PBool isDriving)))"

section \<open>Parsing the geocode response\<close>

text \<open>
  \<^verbatim>\<open>parse_osm_dict\<close> reads the decoded response from \<^verbatim>\<open>ATTR_OSM_DICT\<close>. The helpers
  below are the expressions it repeats: \<^verbatim>\<open>"k" in self.get_attr(ATTR_OSM_DICT)\<close>,
  \<^verbatim>\<open>self.get_attr(ATTR_OSM_DICT).get("k")\<close>, and the same one level down in the
  \<^verbatim>\<open>address\<close> and \<^verbatim>\<open>namedetails\<close> sub-dictionaries. Each is evaluated as Python does:
  \<^verbatim>\<open>.get\<close> on a missing sub-dictionary gives \<^verbatim>\<open>None\<close>, and \<^verbatim>\<open>in None\<close> raises TypeError.
\<close>

definition osm_has :: "store \<Rightarrow> string \<Rightarrow> error + bool" where
  "osm_has s k = py_in (PStr k) (get_attr s ATTR_OSM_DICT)"

definition osm_get :: "store \<Rightarrow> string \<Rightarrow> error + pyval" where
  "osm_get s k = py_get (get_attr s ATTR_OSM_DICT) (PStr k)"

definition sub_has :: "store \<Rightarrow> string \<Rightarrow> pyval \<Rightarrow> error + bool" where
  "sub_has s sub k = ebind (osm_get s sub) (\<lambda>d. py_in k d)"

definition sub_get :: "store \<Rightarrow> string \<Rightarrow> pyval \<Rightarrow> error + pyval" where
  "sub_get s sub k = ebind (osm_get s sub) (\<lambda>d. py_get d k)"

text \<open>\<^verbatim>\<open>if "k" in address: self.set_attr(a, address.get("k"))\<close>, and the
  \<^verbatim>\<open>if\<close>/\<^verbatim>\<open>elif\<close> chains over several keys, where the first key present wins.\<close>

fun set_from_address :: "store \<Rightarrow> attr \<Rightarrow> string list \<Rightarrow> error + store" where
  "set_from_address s a [] = Inr s"
| "set_from_address s a (k # ks) =
     ebind (sub_has s ''address'' (PStr k)) (\<lambda>present.
     if present
     then ebind (sub_get s ''address'' (PStr k)) (\<lambda>v. Inr (set_attr s a v))
     else set_from_address s a ks)"

definition set_from_osm :: "store \<Rightarrow> attr \<Rightarrow> string \<Rightarrow> error + store" where
  "set_from_osm s a k =
     ebind (osm_has s k) (\<lambda>present.
     if present then ebind (osm_get s k) (\<lambda>v. Inr (set_attr s a v)) else Inr s)"

text \<open>Lines 1170 to 1199: place type and category, and the place name they select from
  the address.\<close>

definition name_from_address :: "store \<Rightarrow> attr \<Rightarrow> error + store" where
  "name_from_address s a =
     ebind (sub_has s ''address'' (get_attr s a)) (\<lambda>present.
     if present
     then ebind (sub_get s ''address'' (get_attr s a)) (\<lambda>v. Inr (set_attr s ATTR_PLACE_NAME v))
     else Inr s)"

definition parse_place_type :: "store \<Rightarrow> error + store" where
  "parse_place_type s =
     ebind (osm_has s ''type'') (\<lambda>present.
     if present
     then
       ebind (osm_get s ''type'') (\<lambda>t.
       let s1 = set_attr s ATTR_PLACE_TYPE t in
       ebind (if py_eq (get_attr s1 ATTR_PLACE_TYPE) (PStr ''yes'')
              then ebind (osm_get s1 ''addresstype'') (\<lambda>t'. Inr (set_attr s1 ATTR_PLACE_TYPE t'))
              else Inr s1) (\<lambda>s2.
       name_from_address s2 ATTR_PLACE_TYPE))
     else Inr s)"

definition parse_place_category :: "store \<Rightarrow> error + store" where
  "parse_place_category s =
     ebind (osm_has s ''category'') (\<lambda>present.
     if present
     then
       ebind (osm_get s ''category'') (\<lambda>c.
       name_from_address (set_attr s ATTR_PLACE_CATEGORY c) ATTR_PLACE_CATEGORY)
     else Inr s)"

text \<open>Lines 1200 to 1218: the name from \<^verbatim>\<open>namedetails\<close>, the first configured language
  that has a name, and the provisional native value.\<close>

fun name_by_language :: "store \<Rightarrow> string list \<Rightarrow> error + store" where
  "name_by_language s [] = Inr s"
| "name_by_language s (language # rest) =
     ebind (sub_has s ''namedetails'' (PStr (''name:'' @ language))) (\<lambda>present.
     if present
     then ebind (sub_get s ''namedetails'' (PStr (''name:'' @ language))) (\<lambda>v.
          Inr (set_attr s ATTR_PLACE_NAME v))
     else name_by_language s rest)"

definition parse_place_name :: "store \<Rightarrow> error + store" where
  "parse_place_name s =
     ebind (sub_has s ''namedetails'' (PStr ''name'')) (\<lambda>present.
     ebind (if present
            then ebind (sub_get s ''namedetails'' (PStr ''name'')) (\<lambda>v.
                 Inr (set_attr s ATTR_PLACE_NAME v))
            else Inr s) (\<lambda>s1.
     ebind (if \<not> is_attr_blank s1 CONF_LANGUAGE
            then ebind (as_str (get_attr s1 CONF_LANGUAGE)) (\<lambda>l.
                 name_by_language s1 (split_char CHR '','' l))
            else Inr s1) (\<lambda>s2.
     ebind (in_zone s2) (\<lambda>zone.
     if \<not> zone \<and> \<not> py_eq (get_attr s2 ATTR_PLACE_NAME) (PStr ''house'')
     then Inr (set_attr s2 ATTR_NATIVE_VALUE (get_attr s2 ATTR_PLACE_NAME))
     else Inr s2))))"

text \<open>Lines 1220 to 1327: the address fields and the identifiers.\<close>

definition rewrite_city_of :: "store \<Rightarrow> error + store" where
  "rewrite_city_of s =
     (if \<not> is_attr_blank s ATTR_CITY
      then ebind (as_str (get_attr s ATTR_CITY)) (\<lambda>c.
           if str_startswith c ''City of''
           then Inr (set_attr s ATTR_CITY (PStr (drop 8 c @ '' City'')))
           else Inr s)
      else Inr s)"

definition parse_state_abbr :: "store \<Rightarrow> error + store" where
  "parse_state_abbr s =
     ebind (sub_has s ''address'' (PStr ''ISO3166-2-lvl4'')) (\<lambda>present.
     if present
     then ebind (sub_get s ''address'' (PStr ''ISO3166-2-lvl4'')) (\<lambda>v.
          ebind (as_str v) (\<lambda>code.
          let parts = split_char CHR ''-'' code
          in if 1 < length parts
             then Inr (set_attr s ATTR_STATE_ABBR (PStr (str_upper (parts ! 1))))
             else Inl IndexError))
     else Inr s)"

definition parse_osm_id :: "env \<Rightarrow> store \<Rightarrow> error + store" where
  "parse_osm_id e s =
     ebind (osm_has s ''osm_id'') (\<lambda>present.
     if present
     then ebind (osm_get s ''osm_id'') (\<lambda>v.
          Inr (set_attr s ATTR_OSM_ID (PStr (py_str (py_repr e) v))))
     else Inr s)"

definition parse_address :: "env \<Rightarrow> store \<Rightarrow> error + store" where
  "parse_address e s =
     ebind (set_from_address s ATTR_STREET_NUMBER [''house_number'']) (\<lambda>s.
     ebind (set_from_address s ATTR_STREET [''road'']) (\<lambda>s.
     ebind (set_from_address s ATTR_PLACE_NEIGHBOURHOOD [''neighbourhood'', ''hamlet'']) (\<lambda>s.
     ebind (set_from_address s ATTR_CITY
              [''city'', ''town'', ''village'', ''township'', ''municipality'',
               ''city_district'']) (\<lambda>s.
     ebind (rewrite_city_of s) (\<lambda>s.
     ebind (set_from_address s ATTR_POSTAL_TOWN [''city_district'']) (\<lambda>s.
     ebind (set_from_address s ATTR_POSTAL_TOWN [''suburb'']) (\<lambda>s.
     ebind (set_from_address s ATTR_REGION [''state'']) (\<lambda>s.
     ebind (parse_state_abbr s) (\<lambda>s.
     ebind (set_from_address s ATTR_COUNTY [''county'']) (\<lambda>s.
     ebind (set_from_address s ATTR_COUNTRY [''country'']) (\<lambda>s.
     ebind (set_from_address s ATTR_POSTAL_CODE [''postcode'']) (\<lambda>s.
     ebind (set_from_osm s ATTR_FORMATTED_ADDRESS ''display_name'') (\<lambda>s.
     ebind (parse_osm_id e s) (\<lambda>s.
     set_from_osm s ATTR_OSM_TYPE ''osm_type''))))))))))))))"

text \<open>
  Lines 1329 to 1353: the street reference. The source writes
  \<^verbatim>\<open>if find_num := street_ref.find(char) != -1:\<close>; the comparison binds tighter than
  \<^verbatim>\<open>:=\<close>, so \<^verbatim>\<open>find_num\<close> is the truth value of the comparison and \<^verbatim>\<open>int(find_num)\<close> is
  1 for every delimiter that occurs.
\<close>

definition exclude_chars :: "string list" where
  "exclude_chars = ['','', [CHR 0x5C], ''/'', '';'', '':'']"

definition py_min :: "int list \<Rightarrow> error + int" where
  "py_min xs = (case xs of [] \<Rightarrow> Inl ValueError | y # ys \<Rightarrow> Inr (fold min ys y))"

definition clean_street_ref :: "pyval \<Rightarrow> error + pyval" where
  "clean_street_ref street_ref =
     ebind (emap (\<lambda>c. py_in (PStr c) street_ref) exclude_chars) (\<lambda>flags.
     if list_ex (\<lambda>b. b) flags
     then
       ebind (as_str street_ref) (\<lambda>r.
       let lowest_nums =
             concat (map (\<lambda>char.
                       let find_num = (str_find r char \<noteq> - 1)
                       in if find_num then [if find_num then 1 else 0] else [])
                     exclude_chars)
       in ebind (py_min lowest_nums) (\<lambda>lowest_num.
          Inr (PStr (take (nat lowest_num) r))))
     else Inr street_ref)"

definition parse_street_ref :: "store \<Rightarrow> error + store" where
  "parse_street_ref s =
     ebind (eand (Inr (\<not> is_attr_blank s ATTR_PLACE_CATEGORY))
           (eand (ebind (as_str (get_attr s ATTR_PLACE_CATEGORY)) (\<lambda>c.
                    Inr (str_lower c = ''highway'')))
           (eand (osm_has s ''namedetails'')
                 (sub_has s ''namedetails'' (PStr ''ref''))))) (\<lambda>applies.
     if applies
     then ebind (sub_get s ''namedetails'' (PStr ''ref'')) (\<lambda>street_ref.
          ebind (clean_street_ref street_ref) (\<lambda>street_ref.
          Inr (set_attr s ATTR_STREET_REF street_ref)))
     else Inr s)"

definition parse_osm_dict :: "env \<Rightarrow> store \<Rightarrow> error + store" where
  "parse_osm_dict e s =
     ebind (parse_place_type s) (\<lambda>s.
     ebind (parse_place_category s) (\<lambda>s.
     ebind (parse_place_name s) (\<lambda>s.
     ebind (parse_address e s) (\<lambda>s.
     parse_street_ref s))))"

section \<open>Formatting the state\<close>

text \<open>A string method applied to an attribute: \<^verbatim>\<open>self.get_attr(a).lower()\<close> and the
  like raise AttributeError when the attribute is blank or not a string.\<close>

definition attr_lower :: "store \<Rightarrow> attr \<Rightarrow> error + string" where
  "attr_lower s a = ebind (as_str (get_attr s a)) (\<lambda>v. Inr (str_lower v))"

definition attr_strip :: "store \<Rightarrow> attr \<Rightarrow> error + string" where
  "attr_strip s a = ebind (as_str (get_attr s a)) (\<lambda>v. Inr (str_strip v))"

text \<open>Lines 1396 to 1414: the label taken from the place type or, failing that, from
  the category.\<close>

definition append_type_label :: "store \<Rightarrow> pyval list \<Rightarrow> error + pyval list" where
  "append_type_label s arr =
     ebind (eand (Inr (\<not> is_attr_blank s ATTR_PLACE_TYPE))
           (eand (ebind (attr_lower s ATTR_PLACE_TYPE) (\<lambda>t. Inr (t \<noteq> ''unclassified'')))
                 (ebind (attr_lower s ATTR_PLACE_CATEGORY) (\<lambda>c. Inr (c \<noteq> ''highway'')))))
       (\<lambda>use_type.
     if use_type
     then ebind (as_str (get_attr s ATTR_PLACE_TYPE)) (\<lambda>t.
          Inr (arr @ [PStr (str_strip (str_replace (str_replace (str_title t)
                              ''Proposed'' '''') ''Construction'' ''''))]))
     else
       ebind (eand (Inr (\<not> is_attr_blank s ATTR_PLACE_CATEGORY))
                   (ebind (attr_lower s ATTR_PLACE_CATEGORY) (\<lambda>c. Inr (c \<noteq> ''highway''))))
         (\<lambda>use_category.
       if use_category
       then ebind (as_str (get_attr s ATTR_PLACE_CATEGORY)) (\<lambda>c.
            Inr (arr @ [PStr (str_strip (str_title c))]))
       else Inr arr))"

text \<open>Lines 1415 to 1434: the street, or the street reference on a motorway or trunk
  road, with the street number in front.\<close>

definition append_street :: "env \<Rightarrow> store \<Rightarrow> pyval list \<Rightarrow> error + pyval list" where
  "append_street e s arr =
     (if \<not> is_attr_blank s ATTR_STREET
      then
        ebind (eand (Inr (\<not> is_attr_blank s ATTR_PLACE_CATEGORY))
              (eand (ebind (attr_lower s ATTR_PLACE_CATEGORY) (\<lambda>c. Inr (c = ''highway'')))
              (eand (Inr (\<not> is_attr_blank s ATTR_PLACE_TYPE))
              (eand (ebind (attr_lower s ATTR_PLACE_TYPE) (\<lambda>t.
                       Inr (t \<in> set [''motorway'', ''trunk''])))
                    (Inr (\<not> is_attr_blank s ATTR_STREET_REF)))))) (\<lambda>use_ref.
        ebind (if use_ref then attr_strip s ATTR_STREET_REF else attr_strip s ATTR_STREET)
          (\<lambda>street.
        if is_attr_blank s ATTR_STREET_NUMBER
        then Inr (arr @ [PStr street])
        else Inr (arr @ [PStr (str_strip (py_str (py_repr e) (get_attr s ATTR_STREET_NUMBER))
                               @ '' '' @ street)])))
      else Inr arr)"

definition append_neighbourhood :: "store \<Rightarrow> pyval list \<Rightarrow> error + pyval list" where
  "append_neighbourhood s arr =
     ebind (eand (Inr (\<not> is_attr_blank s ATTR_PLACE_TYPE))
           (eand (ebind (attr_lower s ATTR_PLACE_TYPE) (\<lambda>t. Inr (t = ''house'')))
                 (Inr (\<not> is_attr_blank s ATTR_PLACE_NEIGHBOURHOOD)))) (\<lambda>house.
     if house
     then ebind (attr_strip s ATTR_PLACE_NEIGHBOURHOOD) (\<lambda>n. Inr (arr @ [PStr n]))
     else Inr arr)"

definition append_city_state :: "store \<Rightarrow> pyval list \<Rightarrow> error + pyval list" where
  "append_city_state s arr =
     ebind (if \<not> is_attr_blank s ATTR_CITY
            then ebind (as_str (get_attr s ATTR_CITY)) (\<lambda>c.
                 Inr (arr @ [PStr (str_strip (str_replace c '' Township'' ''''))]))
            else if \<not> is_attr_blank s ATTR_COUNTY
            then ebind (attr_strip s ATTR_COUNTY) (\<lambda>c. Inr (arr @ [PStr c]))
            else Inr arr) (\<lambda>arr.
     if \<not> is_attr_blank s ATTR_STATE_ABBR
     then Inr (arr @ [get_attr s ATTR_STATE_ABBR])
     else Inr arr)"

text \<open>
  \<^verbatim>\<open>build_formatted_place\<close>. Both branches of the duplicate check assign
  \<^verbatim>\<open>use_place_name = False\<close>, as in the source.
\<close>

definition build_formatted_place :: "env \<Rightarrow> store \<Rightarrow> error + store" where
  "build_formatted_place e s =
     (let formatted_place_array = [];
          sensor_attributes_values =
            map (get_attr s) (filter (\<lambda>a. \<not> is_attr_blank s a) (PLACE_NAME_DUPLICATE_LIST e));
          use_place_name =
            (if \<not> is_attr_blank s ATTR_PLACE_NAME
                \<and> list_ex (py_eq (get_attr s ATTR_PLACE_NAME)) sensor_attributes_values
             then False else False);
          display_options = get_attr s ATTR_DISPLAY_OPTIONS
      in
      ebind (in_zone s) (\<lambda>zone.
      ebind
        (if \<not> zone
         then
           ebind (eand (Inr (truthy (get_attr s ATTR_IS_DRIVING)))
                       (py_in (PStr ''driving'') display_options)) (\<lambda>driving.
           ebind (if \<not> use_place_name
                  then ebind (append_type_label s
                                (if driving then formatted_place_array @ [PStr ''Driving'']
                                 else formatted_place_array)) (\<lambda>arr.
                       ebind (append_street e s arr) (\<lambda>arr.
                       append_neighbourhood s arr))
                  else ebind (attr_strip s ATTR_PLACE_NAME) (\<lambda>n.
                       Inr ((if driving then formatted_place_array @ [PStr ''Driving'']
                             else formatted_place_array) @ [PStr n]))) (\<lambda>arr.
           append_city_state s arr))
         else ebind (attr_strip s ATTR_DEVICETRACKER_ZONE_NAME) (\<lambda>n.
              Inr (formatted_place_array @ [PStr n]))) (\<lambda>arr.
      ebind (py_join '', '' arr) (\<lambda>formatted_place.
      Inr (set_attr s ATTR_FORMATTED_PLACE
             (PStr (str_strip (str_replace (str_replace formatted_place [CHR 0x0A] '' '')
                                  (''  '') '' ''))))))))"

text \<open>
  \<^verbatim>\<open>build_state_from_display_options\<close>. \<open>opt k\<close> is \<^verbatim>\<open>"k" in display_options\<close>.
  In the \<^verbatim>\<open>do_not_reorder\<close> branch the list held by the store is itself shortened
  (\<^verbatim>\<open>display_options\<close> is that list, not a copy), and \<^verbatim>\<open>option in locals()\<close> asks
  whether the option is spelled like one of the method's local variables;
  \<^verbatim>\<open>target_option\<close> is one of them only once it has been assigned.
\<close>

definition append_if :: "error + bool \<Rightarrow> pyval \<Rightarrow> pyval list \<Rightarrow> error + pyval list" where
  "append_if c v xs = ebind c (\<lambda>b. Inr (if b then xs @ [v] else xs))"

fun reorder_loop ::
  "pyval list \<Rightarrow> string option \<Rightarrow> pyval list \<Rightarrow> error + pyval list" where
  "reorder_loop [] target_option user_display = Inr user_display"
| "reorder_loop (option # rest) target_option user_display =
     (let target_option = (if py_eq option (PStr ''state'') then Some ''region''
                           else target_option);
          target_option = (if py_eq option (PStr ''place_neighborhood'')
                           then Some ''place_neighbourhood'' else target_option);
          locals = [''self'', ''display_options'', ''user_display'', ''option'']
                   @ (case target_option of Some _ \<Rightarrow> [''target_option''] | None \<Rightarrow> [])
      in ebind (py_in option (PDict (map (\<lambda>n. (n, PNone)) locals))) (\<lambda>is_local.
         if is_local
         then (case target_option of
                 None \<Rightarrow> Inl UnboundLocalError
               | Some t \<Rightarrow> reorder_loop rest target_option (user_display @ [PStr t]))
         else reorder_loop rest target_option user_display))"

definition build_state_from_display_options :: "store \<Rightarrow> error + store" where
  "build_state_from_display_options s =
     (let display_options = get_attr s ATTR_DISPLAY_OPTIONS;
          opt = (\<lambda>k. py_in (PStr k) display_options);
          filled = (\<lambda>a. Inr (\<not> is_attr_blank s a));
          user_display = []
      in
      ebind (append_if (eand (opt ''driving'') (Inr (truthy (get_attr s ATTR_IS_DRIVING))))
               (PStr ''Driving'') user_display) (\<lambda>user_display.
      ebind (eand (opt ''zone_name'') (eand (enot (opt ''do_not_show_not_home''))
                    (filled ATTR_DEVICETRACKER_ZONE_NAME))) (\<lambda>show_zone_name.
      ebind (if show_zone_name
             then Inr (user_display @ [get_attr s ATTR_DEVICETRACKER_ZONE_NAME])
             else append_if (eand (opt ''zone'') (eand (enot (opt ''do_not_show_not_home''))
                                (filled ATTR_DEVICETRACKER_ZONE)))
                    (get_attr s ATTR_DEVICETRACKER_ZONE) user_display) (\<lambda>user_display.
      ebind (append_if (eand (opt ''place_name'') (filled ATTR_PLACE_NAME))
               (get_attr s ATTR_PLACE_NAME) user_display) (\<lambda>user_display.
      ebind (opt ''place'') (\<lambda>place.
      ebind (if place
             then
               ebind (append_if (Inr (\<not> is_attr_blank s ATTR_PLACE_NAME
                                     \<and> \<not> py_eq (get_attr s ATTR_PLACE_NAME)
                                            (get_attr s ATTR_STREET)))
                        (get_attr s ATTR_PLACE_NAME) user_display) (\<lambda>user_display.
               ebind (append_if (eand (filled ATTR_PLACE_CATEGORY)
                                  (ebind (attr_lower s ATTR_PLACE_CATEGORY) (\<lambda>c.
                                     Inr (c \<noteq> ''place''))))
                        (get_attr s ATTR_PLACE_CATEGORY) user_display) (\<lambda>user_display.
               ebind (append_if (eand (filled ATTR_PLACE_TYPE)
                                  (ebind (attr_lower s ATTR_PLACE_TYPE) (\<lambda>t.
                                     Inr (t \<noteq> ''yes''))))
                        (get_attr s ATTR_PLACE_TYPE) user_display) (\<lambda>user_display.
               ebind (append_if (filled ATTR_PLACE_NEIGHBOURHOOD)
                        (get_attr s ATTR_PLACE_NEIGHBOURHOOD) user_display) (\<lambda>user_display.
               ebind (append_if (filled ATTR_STREET_NUMBER)
                        (get_attr s ATTR_STREET_NUMBER) user_display) (\<lambda>user_display.
               append_if (filled ATTR_STREET) (get_attr s ATTR_STREET) user_display)))))
             else
               ebind (append_if (eand (opt ''street_number'') (filled ATTR_STREET_NUMBER))
                        (get_attr s ATTR_STREET_NUMBER) user_display) (\<lambda>user_display.
               append_if (eand (opt ''street'') (filled ATTR_STREET))
                 (get_attr s ATTR_STREET) user_display)) (\<lambda>user_display.
      ebind (append_if (eand (opt ''city'') (filled ATTR_CITY))
               (get_attr s ATTR_CITY) user_display) (\<lambda>user_display.
      ebind (append_if (eand (opt ''county'') (filled ATTR_COUNTY))
               (get_attr s ATTR_COUNTY) user_display) (\<lambda>user_display.
      ebind (eand (opt ''state'') (filled ATTR_REGION)) (\<lambda>show_state.
      ebind (if show_state
             then Inr (user_display @ [get_attr s ATTR_REGION])
             else append_if (eand (opt ''region'') (filled ATTR_REGION))
                    (get_attr s ATTR_REGION) user_display) (\<lambda>user_display.
      ebind (append_if (eand (opt ''postal_code'') (filled ATTR_POSTAL_CODE))
               (get_attr s ATTR_POSTAL_CODE) user_display) (\<lambda>user_display.
      ebind (append_if (eand (opt ''country'') (filled ATTR_COUNTRY))
               (get_attr s ATTR_COUNTRY) user_display) (\<lambda>user_display.
      ebind (append_if (eand (opt ''formatted_address'') (filled ATTR_FORMATTED_ADDRESS))
               (get_attr s ATTR_FORMATTED_ADDRESS) user_display) (\<lambda>user_display.
      ebind (opt ''do_not_reorder'') (\<lambda>do_not_reorder.
      ebind (if do_not_reorder
             then (case display_options of
                     PList opts \<Rightarrow>
                       (let opts' = remove1 (PStr ''do_not_reorder'') opts
                        in ebind (reorder_loop opts' None []) (\<lambda>user_display.
                           Inr (set_attr s ATTR_DISPLAY_OPTIONS (PList opts'), user_display)))
                   | _ \<Rightarrow> Inl AttributeError)
             else Inr (s, user_display)) (\<lambda>(s, user_display).
      if user_display \<noteq> []
      then ebind (py_join '', '' user_display) (\<lambda>v. Inr (set_attr s ATTR_NATIVE_VALUE (PStr v)))
      else Inr s))))))))))))))))"

section \<open>Extended attributes, the event and the snapshot file\<close>

definition get_extended_attr :: "env \<Rightarrow> store \<Rightarrow> error + store" where
  "get_extended_attr e s =
     (let str = py_str (py_repr e) in
      if \<not> is_attr_blank s ATTR_OSM_ID \<and> \<not> is_attr_blank s ATTR_OSM_TYPE
      then
        ebind (attr_lower s ATTR_OSM_TYPE) (\<lambda>t.
        case (if t = ''node'' then Some ''N''
              else if t = ''way'' then Some ''W''
              else if t = ''relation'' then Some ''R''
              else None) of
          None \<Rightarrow> Inl UnboundLocalError
        | Some osm_type_abbr \<Rightarrow>
            (let osm_details_url =
                   ''https://nominatim.openstreetmap.org/details.php?osmtype=''
                   @ osm_type_abbr
                   @ ''&osmid='' @ str (get_attr s ATTR_OSM_ID)
                   @ ''&linkedplaces=1&hierarchy=1&group_hierarchy=1&limit=1&format=json''
                   @ (if is_attr_blank s CONF_API_KEY
                      then ''&email='' @ str (get_attr s CONF_API_KEY) else '''')
                   @ (if \<not> is_attr_blank s CONF_LANGUAGE
                      then ''&accept-language='' @ str (get_attr s CONF_LANGUAGE) else '''')
             in
             ebind (get_dict_from_url e osm_details_url) (\<lambda>details.
             let s1 = set_attr s ATTR_OSM_DETAILS_DICT details in
             if \<not> is_attr_blank s1 ATTR_OSM_DETAILS_DICT
             then
               ebind (eand (Inr (\<not> is_attr_blank s1 ATTR_OSM_DETAILS_DICT))
                     (eand (py_in (PStr ''extratags'') (get_attr s1 ATTR_OSM_DETAILS_DICT))
                           (ebind (py_get (get_attr s1 ATTR_OSM_DETAILS_DICT)
                                     (PStr ''extratags''))
                              (\<lambda>x. py_in (PStr ''wikidata'') x)))) (\<lambda>has_wikidata.
               ebind (if has_wikidata
                      then ebind (py_get (get_attr s1 ATTR_OSM_DETAILS_DICT)
                                    (PStr ''extratags'')) (\<lambda>x.
                           ebind (py_get x (PStr ''wikidata'')) (\<lambda>w.
                           Inr (set_attr s1 ATTR_WIKIDATA_ID w)))
                      else Inr s1) (\<lambda>s2.
               let s3 = set_attr s2 ATTR_WIKIDATA_DICT (PDict []) in
               if \<not> is_attr_blank s3 ATTR_WIKIDATA_ID
               then
                 ebind (get_dict_from_url e
                          (''https://www.wikidata.org/wiki/Special:EntityData/''
                           @ str (get_attr s3 ATTR_WIKIDATA_ID) @ ''.json'')) (\<lambda>wikidata.
                 Inr (set_attr s3 ATTR_WIKIDATA_DICT wikidata))
               else Inr s3))
             else Inr s1)))
      else Inr s)"

text \<open>The keys of the event: three fixed words and the names of attributes.\<close>

datatype event_key = Entity | From_state | To_state | Attribute attr

type_synonym event_data = "(event_key \<times> pyval) list"

definition update_filled :: "store \<Rightarrow> event_data \<Rightarrow> attr list \<Rightarrow> event_data" where
  "update_filled s d attrs =
     fold (\<lambda>a d. if \<not> is_attr_blank s a then dict_update d (Attribute a) (get_attr s a) else d)
       attrs d"

text \<open>\<^verbatim>\<open>fire_event_data\<close>: the dictionary handed to \<^verbatim>\<open>self._hass.bus.fire\<close>.\<close>

definition fire_event_data :: "env \<Rightarrow> store \<Rightarrow> pyval \<Rightarrow> event_data" where
  "fire_event_data e s prev_last_place_name =
     (let event_data = [];
          event_data = (if \<not> is_attr_blank s CONF_NAME
                        then dict_update event_data Entity (get_attr s CONF_NAME)
                        else event_data);
          event_data = (if \<not> is_attr_blank s ATTR_PREVIOUS_STATE
                        then dict_update event_data From_state (get_attr s ATTR_PREVIOUS_STATE)
                        else event_data);
          event_data = (if \<not> is_attr_blank s ATTR_NATIVE_VALUE
                        then dict_update event_data To_state (get_attr s ATTR_NATIVE_VALUE)
                        else event_data);
          event_data = update_filled s event_data (EVENT_ATTRIBUTE_LIST e);
          event_data = (if \<not> is_attr_blank s ATTR_LAST_PLACE_NAME
                           \<and> \<not> py_eq (get_attr s ATTR_LAST_PLACE_NAME) prev_last_place_name
                        then dict_update event_data (Attribute ATTR_LAST_PLACE_NAME)
                               (get_attr s ATTR_LAST_PLACE_NAME)
                        else event_data)
      in if truthy (get_attr s CONF_EXTENDED_ATTR)
         then update_filled s event_data (EXTENDED_ATTRIBUTE_LIST e)
         else event_data)"

text \<open>
  What a pass does to the host besides changing the sensor: renaming the configuration
  entry, firing the event, and writing the snapshot file. \<^verbatim>\<open>write_sensor_to_json\<close>
  writes a copy of the whole store (no value of the model is a \<^verbatim>\<open>datetime\<close>, the only
  kind it drops) and swallows every I/O error.
\<close>

datatype host_call =
  UpdateEntry pyval
  | FireEvent event_data
  | WriteJson store

definition write_sensor_to_json :: "store \<Rightarrow> host_call" where
  "write_sensor_to_json s = WriteJson s"

section \<open>Coordinates, distances and direction of travel\<close>

text \<open>\<^verbatim>\<open>round(self.get_attr(a) / d, 3)\<close>.\<close>

definition rounded_quotient :: "pyval \<Rightarrow> real \<Rightarrow> error + pyval" where
  "rounded_quotient v d =
     (case py_num v of
        Some r \<Rightarrow> ebind (py_round (PFloat (r / d)) 3) (\<lambda>q. Inr (PFloat q))
      | None \<Rightarrow> Inl TypeError)"

definition set_location :: "env \<Rightarrow> store \<Rightarrow> attr \<Rightarrow> attr \<Rightarrow> attr \<Rightarrow> store" where
  "set_location e s lat lon loc =
     (if \<not> is_attr_blank s lat \<and> \<not> is_attr_blank s lon
      then set_attr s loc (PStr (py_str (py_repr e) (get_attr s lat) @ '',''
                                 @ py_str (py_repr e) (get_attr s lon)))
      else s)"

text \<open>Lines 1749 to 1777: the last place name.\<close>

definition update_last_place_name :: "store \<Rightarrow> error + store" where
  "update_last_place_name s =
     ebind (in_zone s) (\<lambda>zone.
     if \<not> zone
     then (if \<not> is_attr_blank s ATTR_PLACE_NAME
           then Inr (set_attr s ATTR_LAST_PLACE_NAME (get_attr s ATTR_PLACE_NAME))
           else Inr s)
     else Inr (set_attr s ATTR_LAST_PLACE_NAME (get_attr s ATTR_DEVICETRACKER_ZONE_NAME)))"

text \<open>
  Lines 1809 to 1827: the direction of travel. The call passes latitude first and
  longitude second, as the source does, to a function whose parameters are
  \<open>lon1 lat1 lon2 lat2\<close>.
\<close>

definition update_direction :: "store \<Rightarrow> pyval \<Rightarrow> error + store" where
  "update_direction s last_distance_m =
     (if \<not> is_attr_blank s ATTR_LATITUDE_OLD \<and> \<not> is_attr_blank s ATTR_LONGITUDE_OLD
      then
        ebind (py_float (get_attr s ATTR_LATITUDE_OLD)) (\<lambda>lat_old.
        ebind (py_float (get_attr s ATTR_LONGITUDE_OLD)) (\<lambda>lon_old.
        ebind (py_float (get_attr s ATTR_LATITUDE)) (\<lambda>lat.
        ebind (py_float (get_attr s ATTR_LONGITUDE)) (\<lambda>lon.
        let deviation = haversine lat_old lon_old lat lon in
        if deviation \<le> 0.2
        then Inr (set_attr s ATTR_DIRECTION_OF_TRAVEL (PStr ''stationary''))
        else
          ebind (py_gt last_distance_m (get_attr s ATTR_DISTANCE_FROM_HOME_M)) (\<lambda>closer.
          if closer
          then Inr (set_attr s ATTR_DIRECTION_OF_TRAVEL (PStr ''towards home''))
          else
            ebind (py_lt last_distance_m (get_attr s ATTR_DISTANCE_FROM_HOME_M)) (\<lambda>farther.
            if farther
            then Inr (set_attr s ATTR_DIRECTION_OF_TRAVEL (PStr ''away from home''))
            else Inr (set_attr s ATTR_DIRECTION_OF_TRAVEL (PStr ''stationary''))))))))
      else Inr (set_attr s ATTR_DIRECTION_OF_TRAVEL (PStr ''stationary'')))"

definition distance_value :: "real option \<Rightarrow> pyval" where
  "distance_value d = (case d of Some r \<Rightarrow> PFloat r | None \<Rightarrow> PNone)"

text \<open>Lines 1791 to 1808: the distance from home.\<close>

definition update_distance_from_home :: "env \<Rightarrow> store \<Rightarrow> error + store" where
  "update_distance_from_home e s =
     ebind (py_float (get_attr s ATTR_LATITUDE)) (\<lambda>lat.
     ebind (py_float (get_attr s ATTR_LONGITUDE)) (\<lambda>lon.
     ebind (py_float (get_attr s ATTR_HOME_LATITUDE)) (\<lambda>home_lat.
     ebind (py_float (get_attr s ATTR_HOME_LONGITUDE)) (\<lambda>home_lon.
     let s1 = set_attr s ATTR_DISTANCE_FROM_HOME_M
                (distance_value (ha_distance e lat lon home_lat home_lon))
     in if \<not> is_attr_blank s1 ATTR_DISTANCE_FROM_HOME_M
        then ebind (rounded_quotient (get_attr s1 ATTR_DISTANCE_FROM_HOME_M) 1000) (\<lambda>km.
             let s2 = set_attr s1 ATTR_DISTANCE_FROM_HOME_KM km in
             ebind (rounded_quotient (get_attr s2 ATTR_DISTANCE_FROM_HOME_M) 1609) (\<lambda>mi.
             Inr (set_attr s2 ATTR_DISTANCE_FROM_HOME_MI mi)))
        else Inr s1))))"

text \<open>Lines 1847 to 1887: the home zone's name in a log line (\<^verbatim>\<open>.split(".")[1]\<close> can
  fail), the distance travelled, and the \<^verbatim>\<open>round\<close> of it in the last log line.\<close>

definition update_distance_traveled :: "env \<Rightarrow> store \<Rightarrow> error + store" where
  "update_distance_traveled e s =
     ebind (as_str (get_attr s CONF_HOME_ZONE)) (\<lambda>home_zone.
     if length (split_char CHR ''.'' home_zone) \<le> 1 then Inl IndexError
     else
       (let s1 = set_attr s ATTR_DISTANCE_TRAVELED_M (PInt 0) in
        ebind (if \<not> is_attr_blank s1 ATTR_LATITUDE_OLD \<and> \<not> is_attr_blank s1 ATTR_LONGITUDE_OLD
               then
                 ebind (py_float (get_attr s1 ATTR_LATITUDE)) (\<lambda>lat.
                 ebind (py_float (get_attr s1 ATTR_LONGITUDE)) (\<lambda>lon.
                 ebind (py_float (get_attr s1 ATTR_LATITUDE_OLD)) (\<lambda>lat_old.
                 ebind (py_float (get_attr s1 ATTR_LONGITUDE_OLD)) (\<lambda>lon_old.
                 let s2 = set_attr s1 ATTR_DISTANCE_TRAVELED_M
                            (distance_value (ha_distance e lat lon lat_old lon_old))
                 in if \<not> is_attr_blank s2 ATTR_DISTANCE_TRAVELED_M
                    then ebind (rounded_quotient (get_attr s2 ATTR_DISTANCE_TRAVELED_M) 1609)
                           (\<lambda>mi. Inr (set_attr s2 ATTR_DISTANCE_TRAVELED_MI mi))
                    else Inr s2))))
               else Inr s1) (\<lambda>s3.
        ebind (py_round (get_attr s3 ATTR_DISTANCE_TRAVELED_M) 1) (\<lambda>_. Inr s3))))"

definition update_coordinates_and_distance :: "env \<Rightarrow> store \<Rightarrow> error + (bool \<times> store)" where
  "update_coordinates_and_distance e s =
     (let last_distance_m = get_attr s ATTR_DISTANCE_FROM_HOME_M;
          s = set_location e s ATTR_LATITUDE ATTR_LONGITUDE ATTR_LOCATION_CURRENT;
          s = set_location e s ATTR_LATITUDE_OLD ATTR_LONGITUDE_OLD ATTR_LOCATION_PREVIOUS;
          s = set_location e s ATTR_HOME_LATITUDE ATTR_HOME_LONGITUDE ATTR_HOME_LOCATION
      in
      ebind (update_last_place_name s) (\<lambda>s.
      if \<not> is_attr_blank s ATTR_LATITUDE \<and> \<not> is_attr_blank s ATTR_LONGITUDE
         \<and> \<not> is_attr_blank s ATTR_HOME_LATITUDE \<and> \<not> is_attr_blank s ATTR_HOME_LONGITUDE
      then
        ebind (update_distance_from_home e s) (\<lambda>s.
        ebind (update_direction s last_distance_m) (\<lambda>s.
        ebind (update_distance_traveled e s) (\<lambda>s.
        Inr (True, s))))
      else Inr (False, s)))"

section \<open>The update pass\<close>

text \<open>
  The sensor object: the attribute store, the state the host displays
  (\<^verbatim>\<open>self._attr_native_value\<close>), its entity id once the host has assigned one, and the
  calls it has made on the host, oldest first.
\<close>

record places =
  internal_attr :: store
  attr_native_value :: pyval
  entity_id :: "string option"
  host_calls :: "host_call list"

text \<open>
  \<^verbatim>\<open>do_update\<close> returns nothing. The model returns, next to the sensor, which way the
  pass went: the three conditions that lead into the outer \<^verbatim>\<open>else\<close> (line 2182), the
  inner \<^verbatim>\<open>else\<close> (line 2170), the commit (lines 2135 to 2169), and the pass that ran
  the query and got no usable answer (the \<^verbatim>\<open>if\<close> on line 2026 has no \<^verbatim>\<open>else\<close>).
\<close>

datatype pass_outcome =
  Reverted_no_coordinates
  | Reverted_gate_declined
  | Reverted_zone_blank
  | Reverted_unchanged
  | Committed
  | No_geocode_data

definition reset_attributes :: "env \<Rightarrow> store \<Rightarrow> store" where
  "reset_attributes e s =
     cleanup_attributes
       (set_attr (fold (\<lambda>a s. clear_attr s a) (RESET_ATTRIBUTE_LIST e) s)
          ATTR_UPDATES_SKIPPED (PInt 0))"

text \<open>\<^verbatim>\<open>v[:-14]\<close>.\<close>

fun py_drop_last :: "nat \<Rightarrow> pyval \<Rightarrow> error + pyval" where
  "py_drop_last n (PStr s) = Inr (PStr (take (length s - n) s))"
| "py_drop_last n (PList l) = Inr (PList (take (length l - n) l))"
| "py_drop_last n v = Inl TypeError"

text \<open>Lines 1924 to 1933: the previous state, without its time suffix, and the previous
  coordinates.\<close>

definition remember_previous :: "env \<Rightarrow> store \<Rightarrow> error + store" where
  "remember_previous e s =
     ebind (if \<not> is_attr_blank s ATTR_NATIVE_VALUE \<and> truthy (get_attr s CONF_SHOW_TIME)
            then ebind (py_drop_last 14 (get_attr s ATTR_NATIVE_VALUE)) (\<lambda>v.
                 Inr (set_attr s ATTR_PREVIOUS_STATE (PStr (py_str (py_repr e) v))))
            else Inr (set_attr s ATTR_PREVIOUS_STATE (get_attr s ATTR_NATIVE_VALUE))) (\<lambda>s.
     ebind (is_float (get_attr s ATTR_LATITUDE)) (\<lambda>has_lat.
     let s = (if has_lat
              then set_attr s ATTR_LATITUDE_OLD
                     (PStr (py_str (py_repr e) (get_attr s ATTR_LATITUDE)))
              else s) in
     ebind (is_float (get_attr s ATTR_LONGITUDE)) (\<lambda>has_lon.
     Inr (if has_lon
          then set_attr s ATTR_LONGITUDE_OLD
                 (PStr (py_str (py_repr e) (get_attr s ATTR_LONGITUDE)))
          else s))))"

text \<open>Lines 1952 to 1980: the tracker's coordinates, accuracy and zone.\<close>

definition pull_coordinate :: "env \<Rightarrow> store \<Rightarrow> string \<Rightarrow> attr \<Rightarrow> error + store" where
  "pull_coordinate e s key a =
     ebind (states_get e (get_attr s CONF_DEVICETRACKER_ID)) (\<lambda>tracker.
     ebind (attributes_get tracker key) (\<lambda>v.
     ebind (is_float v) (\<lambda>ok.
     Inr (if ok then set_attr s a (PStr (py_str (py_repr e) v)) else s))))"

definition pull_tracker :: "env \<Rightarrow> store \<Rightarrow> error + store" where
  "pull_tracker e s =
     ebind (pull_coordinate e s CONF_LATITUDE ATTR_LATITUDE) (\<lambda>s.
     ebind (pull_coordinate e s CONF_LONGITUDE ATTR_LONGITUDE) (\<lambda>s.
     ebind (get_gps_accuracy e s) (\<lambda>s.
     get_zone_details e s)))"

text \<open>Lines 2005 to 2025: the query.\<close>

definition osm_url :: "env \<Rightarrow> store \<Rightarrow> string" where
  "osm_url e s =
     ''https://nominatim.openstreetmap.org/reverse?format=jsonv2&lat=''
     @ py_str (py_repr e) (get_attr s ATTR_LATITUDE)
     @ ''&lon='' @ py_str (py_repr e) (get_attr s ATTR_LONGITUDE)
     @ (if \<not> is_attr_blank s CONF_LANGUAGE
        then ''&accept-language='' @ py_str (py_repr e) (get_attr s CONF_LANGUAGE) else '''')
     @ ''&addressdetails=1&namedetails=1&zoom=18&limit=1''
     @ (if \<not> is_attr_blank s CONF_API_KEY
        then ''&email='' @ py_str (py_repr e) (get_attr s CONF_API_KEY) else '''')"

text \<open>Lines 2029 to 2042: which last place name to keep.\<close>

definition keep_last_place_name :: "store \<Rightarrow> pyval \<Rightarrow> store" where
  "keep_last_place_name s prev_last_place_name =
     (if truthy (get_attr s ATTR_INITIAL_UPDATE)
      then set_attr s ATTR_LAST_PLACE_NAME prev_last_place_name
      else if py_eq (get_attr s ATTR_LAST_PLACE_NAME) (get_attr s ATTR_PLACE_NAME)
              \<or> py_eq (get_attr s ATTR_LAST_PLACE_NAME) (get_attr s ATTR_DEVICETRACKER_ZONE_NAME)
      then set_attr s ATTR_LAST_PLACE_NAME prev_last_place_name
      else s)"

text \<open>Lines 2065 to 2070: the configured options, split at commas and stripped.\<close>

definition split_display_options :: "store \<Rightarrow> error + pyval list" where
  "split_display_options s =
     (if \<not> is_attr_blank s CONF_OPTIONS
      then ebind (as_str (get_attr s ATTR_OPTIONS)) (\<lambda>options.
           Inr (map (\<lambda>option. PStr (str_strip option)) (split_char CHR '','' options)))
      else Inr [])"

text \<open>Lines 2074 to 2109: the new native value.\<close>

definition build_native_value :: "env \<Rightarrow> store \<Rightarrow> pyval list \<Rightarrow> error + store" where
  "build_native_value e s display_options =
     (if list_ex (py_eq (PStr ''formatted_place'')) display_options
      then ebind (build_formatted_place e s) (\<lambda>s.
           Inr (set_attr s ATTR_NATIVE_VALUE (get_attr s ATTR_FORMATTED_PLACE)))
      else
        ebind (in_zone s) (\<lambda>zone.
        if \<not> zone then build_state_from_display_options s
        else if (list_ex (py_eq (PStr ''zone'')) display_options
                 \<and> \<not> is_attr_blank s ATTR_DEVICETRACKER_ZONE)
                \<or> is_attr_blank s ATTR_DEVICETRACKER_ZONE_NAME
        then Inr (set_attr s ATTR_NATIVE_VALUE (get_attr s ATTR_DEVICETRACKER_ZONE))
        else if \<not> is_attr_blank s ATTR_DEVICETRACKER_ZONE_NAME
        then Inr (set_attr s ATTR_NATIVE_VALUE (get_attr s ATTR_DEVICETRACKER_ZONE_NAME))
        else Inr s))"

text \<open>Lines 2116 to 2133: is the new state different from the previous one?\<close>

definition eor :: "error + bool \<Rightarrow> error + bool \<Rightarrow> error + bool" where
  "eor a b = ebind a (\<lambda>x. if x then Inr True else b)"

definition state_changed :: "store \<Rightarrow> error + bool" where
  "state_changed s =
     (let lower_strip = (\<lambda>a. ebind (attr_lower s a) (\<lambda>v. Inr (str_strip v)));
          differs = (\<lambda>x y. ebind x (\<lambda>u. ebind y (\<lambda>v. Inr (u \<noteq> v))))
      in
      eor (eand (Inr (\<not> is_attr_blank s ATTR_PREVIOUS_STATE))
          (eand (Inr (\<not> is_attr_blank s ATTR_NATIVE_VALUE))
          (eand (differs (lower_strip ATTR_PREVIOUS_STATE) (lower_strip ATTR_NATIVE_VALUE))
          (eand (differs (ebind (as_str (get_attr s ATTR_PREVIOUS_STATE)) (\<lambda>p.
                            Inr (str_strip (str_lower (str_replace p '' '' '''')))))
                         (lower_strip ATTR_NATIVE_VALUE))
                (differs (lower_strip ATTR_PREVIOUS_STATE)
                         (lower_strip ATTR_DEVICETRACKER_ZONE))))))
     (eor (Inr (is_attr_blank s ATTR_PREVIOUS_STATE))
     (eor (Inr (is_attr_blank s ATTR_NATIVE_VALUE))
          (Inr (truthy (get_attr s ATTR_INITIAL_UPDATE))))))"

text \<open>Lines 2138 to 2159: the native value is cut to 255 characters, 14 of which are
  the time suffix when \<^verbatim>\<open>show_time\<close> is set.\<close>

definition current_time :: "datetime \<Rightarrow> string" where
  "current_time now = fmt02 (dt_hour now) @ '':'' @ fmt02 (dt_minute now)"

definition bound_native_value :: "env \<Rightarrow> store \<Rightarrow> error + store" where
  "bound_native_value e s =
     (if \<not> is_attr_blank s ATTR_NATIVE_VALUE
      then
        (if truthy (get_attr s CONF_SHOW_TIME)
         then ebind (py_take (255 - 14) (get_attr s ATTR_NATIVE_VALUE)) (\<lambda>v.
              case v of
                PStr t \<Rightarrow> Inr (set_attr s ATTR_NATIVE_VALUE
                                (PStr (t @ '' (since '' @ current_time (datetime_now e) @ '')'')))
              | _ \<Rightarrow> Inl TypeError)
         else ebind (py_take 255 (get_attr s ATTR_NATIVE_VALUE)) (\<lambda>v.
              Inr (set_attr s ATTR_NATIVE_VALUE v)))
      else Inr (clear_attr s ATTR_NATIVE_VALUE))"

text \<open>Lines 2135 to 2169: the commit.\<close>

definition commit_update :: "env \<Rightarrow> places \<Rightarrow> store \<Rightarrow> pyval \<Rightarrow> error + places" where
  "commit_update e p s prev_last_place_name =
     ebind (if truthy (get_attr s CONF_EXTENDED_ATTR) then get_extended_attr e s else Inr s)
       (\<lambda>s.
     ebind (bound_native_value e (cleanup_attributes s)) (\<lambda>s.
     let event = FireEvent (fire_event_data e s prev_last_place_name);
         s' = set_attr s ATTR_INITIAL_UPDATE (PBool False)
     in Inr (p\<lparr>internal_attr := s',
               attr_native_value := get_attr s ATTR_NATIVE_VALUE,
               host_calls := host_calls p @ [event, write_sensor_to_json s']\<rparr>)))"

text \<open>Lines 2002 to 2181: the query and what follows from its answer.\<close>

definition resolve_place ::
  "env \<Rightarrow> places \<Rightarrow> store \<Rightarrow> store \<Rightarrow> pyval \<Rightarrow> error + (pass_outcome \<times> places)" where
  "resolve_place e p previous_attr s prev_last_place_name =
     (let s = get_map_link e (reset_attributes e s) in
      ebind (get_dict_from_url e (osm_url e s)) (\<lambda>osm_dict.
      let s = set_attr s ATTR_OSM_DICT osm_dict in
      if \<not> is_attr_blank s ATTR_OSM_DICT
      then
        ebind (parse_osm_dict e s) (\<lambda>s.
        let s = keep_last_place_name s prev_last_place_name in
        ebind (split_display_options s) (\<lambda>display_options.
        let s = set_attr s ATTR_DISPLAY_OPTIONS (PList display_options) in
        ebind (get_driving_status s) (\<lambda>s.
        ebind (build_native_value e s display_options) (\<lambda>s.
        let s = set_attr s ATTR_LAST_CHANGED (PStr (dt_text (datetime_now e))) in
        ebind (state_changed s) (\<lambda>changed.
        if changed
        then ebind (commit_update e p s prev_last_place_name) (\<lambda>p'. Inr (Committed, p'))
        else Inr (Reverted_unchanged, p\<lparr>internal_attr := previous_attr\<rparr>))))))
      else Inr (No_geocode_data, p\<lparr>internal_attr := s\<rparr>)))"

text \<open>Line 2189: the time stamp every pass ends with.\<close>

definition stamp_last_updated :: "env \<Rightarrow> pass_outcome \<times> places \<Rightarrow> pass_outcome \<times> places" where
  "stamp_last_updated e r =
     (fst r, (snd r)\<lparr>internal_attr :=
                set_attr (internal_attr (snd r)) ATTR_LAST_UPDATED
                  (PStr (dt_text (datetime_now e)))\<rparr>)"

definition do_update :: "env \<Rightarrow> places \<Rightarrow> error + (pass_outcome \<times> places)" where
  "do_update e p =
     (let previous_attr = internal_attr p in
      ebind (check_for_updated_entity_name e (entity_id p) (internal_attr p)) (\<lambda>(s, renamed).
      let p = (case renamed of
                 Some n \<Rightarrow> p\<lparr>host_calls := host_calls p @ [UpdateEntry n]\<rparr>
               | None \<Rightarrow> p) in
      ebind (remember_previous e (cleanup_attributes s)) (\<lambda>s.
      let prev_last_place_name = get_attr s ATTR_LAST_PLACE_NAME in
      ebind (pull_tracker e s) (\<lambda>s.
      ebind (update_coordinates_and_distance e s) (\<lambda>(proceed_with_update, s).
      if \<not> proceed_with_update
      then Inr (stamp_last_updated e
                  (Reverted_no_coordinates, p\<lparr>internal_attr := previous_attr\<rparr>))
      else
        ebind (determine_if_update_needed s) (\<lambda>(proceed_with_update, s).
        if \<not> proceed_with_update
        then Inr (stamp_last_updated e
                    (Reverted_gate_declined, p\<lparr>internal_attr := previous_attr\<rparr>))
        else if is_attr_blank s ATTR_DEVICETRACKER_ZONE
        then Inr (stamp_last_updated e
                    (Reverted_zone_blank, p\<lparr>internal_attr := previous_attr\<rparr>))
        else
          ebind (resolve_place e p previous_attr s prev_last_place_name) (\<lambda>r.
          Inr (stamp_last_updated e r))))))))"

(*PROPERTIES*)
section \<open>Properties\<close>

subsection \<open>Basic facts\<close>

lemma ebind_Inl [simp]: "ebind (Inl e) f = Inl e"
  by (simp add: ebind_def)

lemma ebind_Inr [simp]: "ebind (Inr x) f = f x"
  by (simp add: ebind_def)

subsection \<open>Great-circle distance\<close>

lemma sin_half_diff_sq: "(sin ((x - y) / 2))\<^sup>2 = (sin ((y - x) / 2))\<^sup>2" for x y :: real
proof -
  have "(x - y) / 2 = - ((y - x) / 2)" by (simp add: field_simps)
  then have "sin ((x - y) / 2) = - sin ((y - x) / 2)" by (metis sin_minus)
  then show ?thesis by simp
qed

text \<open>
  C9. \<open>haversine\<close> gives the same distance in both directions, and the distance of a
  point to itself is zero.
\<close>

theorem haversine_symmetric_and_zero:
  "haversine lon1 lat1 lon2 lat2 = haversine lon2 lat2 lon1 lat1
   \<and> haversine lon1 lat1 lon1 lat1 = 0"
proof
  show "haversine lon1 lat1 lon2 lat2 = haversine lon2 lat2 lon1 lat1"
    unfolding haversine_def Let_def
    by (simp add: sin_half_diff_sq [of "radians lon2" "radians lon1"]
          sin_half_diff_sq [of "radians lat2" "radians lat1"] mult.commute)
  show "haversine lon1 lat1 lon1 lat1 = 0"
    by (simp add: haversine_def)
qed

end
